theory Spec2Isabelle
  imports Main "HOL-Library.Word"
begin

section \<open>JavaScript values\<close>

text \<open>
  The library stores arbitrary JavaScript values, tests them with \<open>===\<close> against
  \<open>undefined\<close> and \<open>null\<close>, and, in \<open>unwrap\<close>, appends one to a string.
  A value is
  \<^item> one of the two absence sentinels;
  \<^item> a boolean or a string;
  \<^item> \<open>Num w\<close>, the integer-valued number \<open>sint w\<close>, between \<open>-2^53\<close> and
    \<open>2^53 - 1\<close>: each of these is a JavaScript number and prints in plain decimal;
  \<^item> \<open>Error m\<close>, what \<open>Error(m)\<close> builds (the library throws nothing else), and
    \<open>TypeError m\<close>, what the language throws when a conversion is refused;
  \<^item> \<open>Symbol i\<close>, the symbol with identity \<open>i\<close>;
  \<^item> \<open>Other i c\<close>, any other value (an object, an instance of another \<open>Error\<close>
    subclass, a number outside the range of \<open>Num\<close>) with identity \<open>i\<close>, where \<open>c\<close>
    is what appending it to a string does: \<open>Inr s\<close> when it converts to the string
    \<open>s\<close>, \<open>Inl x\<close> when the conversion throws \<open>x\<close> (an object without a prototype
    throws a \<open>TypeError\<close>; a user-defined \<open>toString\<close> may throw anything).

  A JavaScript function is called with an argument list and either returns a value or
  throws one: \<open>Inl x\<close> is "threw \<open>x\<close>", \<open>Inr v\<close> is "returned \<open>v\<close>".
\<close>

datatype jsval =
    Undefined
  | Null
  | Bool bool
  | Num "54 word"
  | Str string
  | Error string
  | TypeError string
  | Symbol nat
  | Other nat "jsval + string"

type_synonym 'a thrown_or = "jsval + 'a"

type_synonym jsfun = "jsval list \<Rightarrow> jsval thrown_or"

text \<open>
  A promise, as seen by \<open>await\<close>: it fulfils with a value, rejects with a reason, or
  never settles.
\<close>

datatype 'a promise = Fulfilled 'a | Rejected jsval | Pending

subsection \<open>String conversion\<close>

text \<open>
  \<open>"..." + x\<close> converts \<open>x\<close> to a string and appends it. An \<open>Error\<close> prints as
  \<open>Error: message\<close>, or as \<open>Error\<close> when its message is empty, and a \<open>TypeError\<close>
  likewise under its own name. A symbol is not converted: the language throws a
  \<open>TypeError\<close> instead (the message is the one of V8).
\<close>

definition digit_char :: "int \<Rightarrow> char" where
  "digit_char d = char_of (48 + d)"

function decimal_digits :: "int \<Rightarrow> string \<Rightarrow> string" where
  "decimal_digits n acc =
     (if 10 \<le> n then decimal_digits (n div 10) (digit_char (n mod 10) # acc)
      else digit_char n # acc)"
  by pat_completeness auto
termination
  by (relation "measure (\<lambda>(n, acc). nat n)") auto

definition Number_toString :: "54 word \<Rightarrow> string" where
  "Number_toString w =
     (if 0 \<le> sint w then decimal_digits (sint w) []
      else CHR ''-'' # decimal_digits (- sint w) [])"

definition Error_toString :: "string \<Rightarrow> string \<Rightarrow> string" where
  "Error_toString name msg = (if msg = [] then name else name @ '': '' @ msg)"

fun ToString :: "jsval \<Rightarrow> string thrown_or" where
  "ToString Undefined = Inr ''undefined''"
| "ToString Null = Inr ''null''"
| "ToString (Bool b) = Inr (if b then ''true'' else ''false'')"
| "ToString (Num w) = Inr (Number_toString w)"
| "ToString (Str s) = Inr s"
| "ToString (Error m) = Inr (Error_toString ''Error'' m)"
| "ToString (TypeError m) = Inr (Error_toString ''TypeError'' m)"
| "ToString (Symbol i) = Inl (TypeError ''Cannot convert a Symbol value to a string'')"
| "ToString (Other i c) = c"

definition string_concat :: "string \<Rightarrow> jsval \<Rightarrow> string thrown_or" where
  "string_concat s x =
     (case ToString x of
        Inl thrown \<Rightarrow> Inl thrown
      | Inr t \<Rightarrow> Inr (s @ t))"

section \<open>Result\<close>

text \<open>
  \<^verbatim>\<open>
  export class Result<TValue, TError = any> {
    private value?: TValue;
    private error?: TError;
    private constructor(constructorArgs) {
      if (Result.Ok in constructorArgs) { this.value = constructorArgs[Result.Ok]; }
      else { this.error = constructorArgs[Result.Err]; }
    }
  \<close>
  A slot that the constructor does not assign reads as \<open>undefined\<close>.
\<close>

record Result =
  r_value :: jsval
  r_error :: jsval

datatype ResultConstructor = OkArg jsval | ErrArg jsval

fun new_Result :: "ResultConstructor \<Rightarrow> Result" where
  "new_Result (OkArg v) = \<lparr>r_value = v, r_error = Undefined\<rparr>"
| "new_Result (ErrArg e) = \<lparr>r_value = Undefined, r_error = e\<rparr>"

definition Result_ok :: "jsval \<Rightarrow> Result" where
  "Result_ok v = new_Result (OkArg v)"

definition Result_err :: "jsval \<Rightarrow> Result" where
  "Result_err e = new_Result (ErrArg e)"

text \<open>
  \<^verbatim>\<open>
  static try(fn, ...args) {
    try { return Result.ok(fn(...args)); }
    catch (error) { return Result.err(error); }
  }
  \<close>
\<close>

definition Result_try :: "jsfun \<Rightarrow> jsval list \<Rightarrow> Result thrown_or" where
  "Result_try fn args =
     (case fn args of
        Inr v \<Rightarrow> Inr (Result_ok v)
      | Inl x \<Rightarrow> Inr (Result_err x))"

text \<open>
  \<^verbatim>\<open>
  static async tryAsync(fn, ...args) {
    try { return Result.ok(await fn(...args)); }
    catch (error) { return Result.err(error); }
  }
  \<close>
  The call \<open>fn(...args)\<close> may throw before it returns a promise; \<open>await\<close> throws the
  reason of a rejected promise. The value is the promise that the \<open>async\<close> function
  returns.
\<close>

definition Result_tryAsync ::
  "(jsval list \<Rightarrow> jsval promise thrown_or) \<Rightarrow> jsval list \<Rightarrow> Result promise" where
  "Result_tryAsync fn args =
     (case fn args of
        Inl x \<Rightarrow> Fulfilled (Result_err x)
      | Inr p \<Rightarrow>
          (case p of
             Fulfilled v \<Rightarrow> Fulfilled (Result_ok v)
           | Rejected r \<Rightarrow> Fulfilled (Result_err r)
           | Pending \<Rightarrow> Pending))"

definition Result_match :: "Result \<Rightarrow> jsfun \<Rightarrow> jsfun \<Rightarrow> jsval thrown_or" where
  "Result_match r onOk onErr =
     (if r_error r \<noteq> Undefined then onErr [r_error r] else onOk [r_value r])"

definition Result_or :: "Result \<Rightarrow> jsval \<Rightarrow> jsval" where
  "Result_or r defaultValue =
     (if r_value r \<noteq> Undefined then r_value r else defaultValue)"

definition Result_map :: "Result \<Rightarrow> jsfun \<Rightarrow> Result thrown_or" where
  "Result_map r mapper =
     (if r_error r \<noteq> Undefined then Inr (Result_err (r_error r))
      else Result_try mapper [r_value r])"

text \<open>
  \<^verbatim>\<open>
  unwrap() {
    if (this.value === undefined) {
      throw Error("Attempted to unwrap an Err value Result. Error: " + this.error);
    }
    return this.value;
  }
  \<close>
  The message is built before \<open>Error\<close> is called, so a conversion that throws is what
  \<open>unwrap\<close> throws.
\<close>

definition Result_unwrap :: "Result \<Rightarrow> jsval thrown_or" where
  "Result_unwrap r =
     (if r_value r = Undefined
      then (case string_concat ''Attempted to unwrap an Err value Result. Error: ''
                   (r_error r) of
              Inl thrown \<Rightarrow> Inl thrown
            | Inr message \<Rightarrow> Inl (Error message))
      else Inr (r_value r))"

definition Result_expect :: "Result \<Rightarrow> string \<Rightarrow> jsval thrown_or" where
  "Result_expect r message =
     (if r_value r = Undefined then Inl (Error message) else Inr (r_value r))"

definition Result_unwrapErr :: "Result \<Rightarrow> jsval thrown_or" where
  "Result_unwrapErr r =
     (if r_error r = Undefined
      then Inl (Error ''Attempted to unwrap error for an Ok value Result.'')
      else Inr (r_error r))"

definition Result_expectErr :: "Result \<Rightarrow> string \<Rightarrow> jsval thrown_or" where
  "Result_expectErr r message =
     (if r_error r = Undefined then Inl (Error message) else Inr (r_error r))"

definition Result_isOk :: "Result \<Rightarrow> bool" where
  "Result_isOk r = (r_error r = Undefined)"

definition Result_isErr :: "Result \<Rightarrow> bool" where
  "Result_isErr r = (r_error r \<noteq> Undefined)"

section \<open>Option\<close>

text \<open>
  \<^verbatim>\<open>
  export class Option<TValue> {
    private value: TValue | undefined;
    private constructor(constructorArgs) {
      if (Option.None in constructorArgs) { this.value = undefined; }
      else { this.value = constructorArgs[Option.Some]; }
    }
  \<close>
\<close>

record Option =
  o_value :: jsval

datatype OptionConstructor = SomeArg jsval | NoneArg

fun new_Option :: "OptionConstructor \<Rightarrow> Option" where
  "new_Option NoneArg = \<lparr>o_value = Undefined\<rparr>"
| "new_Option (SomeArg v) = \<lparr>o_value = v\<rparr>"

definition Option_some :: "jsval \<Rightarrow> Option thrown_or" where
  "Option_some v =
     (if v = Undefined
      then Inl (Error ''Cannot create a Some Option with an undefined value.'')
      else if v = Null
      then Inl (Error ''Cannot create a Some Option with a null value.'')
      else Inr (new_Option (SomeArg v)))"

definition Option_none :: Option where
  "Option_none = new_Option NoneArg"

definition Option_from :: "jsval \<Rightarrow> Option thrown_or" where
  "Option_from v =
     (if v = Undefined then Inr Option_none
      else if v = Null then Inr Option_none
      else Option_some v)"

text \<open>
  \<^verbatim>\<open>
  static async fromAsync(value) {
    const unwrappedValue = await value;
    return Option.from(unwrappedValue);
  }
  \<close>
  Nothing catches what \<open>await\<close> or \<open>Option.from\<close> throws, so it rejects the promise
  that the \<open>async\<close> function returns.
\<close>

definition Option_fromAsync :: "jsval promise \<Rightarrow> Option promise" where
  "Option_fromAsync p =
     (case p of
        Fulfilled unwrappedValue \<Rightarrow>
          (case Option_from unwrappedValue of
             Inr opt \<Rightarrow> Fulfilled opt
           | Inl x \<Rightarrow> Rejected x)
      | Rejected r \<Rightarrow> Rejected r
      | Pending \<Rightarrow> Pending)"

definition Option_match :: "Option \<Rightarrow> jsfun \<Rightarrow> jsfun \<Rightarrow> jsval thrown_or" where
  "Option_match opt onSome onNone =
     (if o_value opt = Undefined then onNone [] else onSome [o_value opt])"

definition Option_or :: "Option \<Rightarrow> jsval \<Rightarrow> jsval" where
  "Option_or opt defaultValue =
     (if o_value opt = Undefined then defaultValue else o_value opt)"

definition Option_map :: "Option \<Rightarrow> jsfun \<Rightarrow> Option thrown_or" where
  "Option_map opt mapper =
     (if o_value opt = Undefined then Inr Option_none
      else (case mapper [o_value opt] of
              Inl x \<Rightarrow> Inl x
            | Inr w \<Rightarrow> Option_from w))"

definition Option_unwrap :: "Option \<Rightarrow> jsval thrown_or" where
  "Option_unwrap opt =
     (if o_value opt = Undefined
      then Inl (Error ''Attempted to unwrap a None value Option.'')
      else Inr (o_value opt))"

definition Option_expect :: "Option \<Rightarrow> string \<Rightarrow> jsval thrown_or" where
  "Option_expect opt message =
     (if o_value opt = Undefined then Inl (Error message) else Inr (o_value opt))"

definition Option_unwrapNone :: "Option \<Rightarrow> jsval thrown_or" where
  "Option_unwrapNone opt =
     (if o_value opt \<noteq> Undefined
      then Inl (Error ''Attempted to unwrap a Some value Option.'')
      else Inr Undefined)"

definition Option_expectNone :: "Option \<Rightarrow> string \<Rightarrow> jsval thrown_or" where
  "Option_expectNone opt message =
     (if o_value opt \<noteq> Undefined then Inl (Error message) else Inr Undefined)"

definition Option_isSome :: "Option \<Rightarrow> bool" where
  "Option_isSome opt = (o_value opt \<noteq> Undefined)"

definition Option_isNone :: "Option \<Rightarrow> bool" where
  "Option_isNone opt = (o_value opt = Undefined)"

subsection \<open>Options obtainable through the public interface\<close>

text \<open>
  The constructor is private, so a caller holds only the Options that \<open>some\<close>,
  \<open>none\<close>, \<open>from\<close>, a fulfilled \<open>fromAsync\<close> and \<open>map\<close> (on an Option obtained
  the same way, with any mapper) return.
\<close>

inductive Option_reachable :: "Option \<Rightarrow> bool" where
  via_some: "Option_some v = Inr opt \<Longrightarrow> Option_reachable opt"
| via_none: "Option_reachable Option_none"
| via_from: "Option_from v = Inr opt \<Longrightarrow> Option_reachable opt"
| via_fromAsync: "Option_fromAsync p = Fulfilled opt \<Longrightarrow> Option_reachable opt"
| via_map:
    "Option_reachable opt \<Longrightarrow> Option_map opt mapper = Inr opt' \<Longrightarrow> Option_reachable opt'"

section \<open>Auxiliary facts\<close>

text \<open>\<open>Option.from\<close> never throws: the two sentinels are filtered before \<open>some\<close> runs.\<close>

lemma Option_from_total:
  "Option_from v
     = Inr (if v = Undefined \<or> v = Null then Option_none else \<lparr>o_value = v\<rparr>)"
  by (simp add: Option_from_def Option_some_def)

lemma Option_from_never_null: "Option_from v = Inr opt \<Longrightarrow> o_value opt \<noteq> Null"
  by (auto simp: Option_from_total Option_none_def split: if_splits)

lemma Option_some_never_null: "Option_some v = Inr opt \<Longrightarrow> o_value opt \<noteq> Null"
  by (auto simp: Option_some_def split: if_splits)

lemma Option_fromAsync_never_null:
  "Option_fromAsync p = Fulfilled opt \<Longrightarrow> o_value opt \<noteq> Null"
  by (auto simp: Option_fromAsync_def split: promise.splits sum.splits
      dest: Option_from_never_null)

lemma Option_map_never_null: "Option_map opt mapper = Inr res \<Longrightarrow> o_value res \<noteq> Null"
  by (auto simp: Option_map_def Option_none_def split: if_splits sum.splits
      dest: Option_from_never_null)

lemma Option_reachable_never_null: "Option_reachable opt \<Longrightarrow> o_value opt \<noteq> Null"
  by (induction rule: Option_reachable.induct)
     (auto simp: Option_none_def
      dest: Option_some_never_null Option_from_never_null Option_fromAsync_never_null
            Option_map_never_null)

text \<open>What \<open>unwrap\<close> does when the value slot holds \<open>undefined\<close>.\<close>

lemma Result_ok_undefined_unwrap:
  "Result_unwrap (Result_ok Undefined)
     = Inl (Error ''Attempted to unwrap an Err value Result. Error: undefined'')"
  by (simp add: Result_unwrap_def Result_ok_def string_concat_def)

lemma Result_err_undefined_unwrap:
  "Result_unwrap (Result_err Undefined)
     = Inl (Error ''Attempted to unwrap an Err value Result. Error: undefined'')"
  by (simp add: Result_unwrap_def Result_err_def string_concat_def)

lemma Result_err_unwrap_throws: "\<exists>thrown. Result_unwrap (Result_err e) = Inl thrown"
  by (simp add: Result_unwrap_def Result_err_def split: sum.split)

section \<open>Result: capturing failures\<close>

text \<open>
  Claim C1. \<open>Result.try(fn, ...args)\<close> never throws. If \<open>fn(...args)\<close> returns \<open>v\<close> the
  result is \<open>Result.ok(v)\<close>; if it throws \<open>x\<close> the result is \<open>Result.err(x)\<close>.
  \<open>Result.tryAsync\<close> never rejects: a computation fulfilled with \<open>v\<close> gives
  \<open>Result.ok(v)\<close>, whose value slot holds \<open>v\<close>; a computation rejected with \<open>x\<close>
  (or a call that throws \<open>x\<close> before it returns a promise) gives \<open>Result.err(x)\<close>,
  whose error slot holds \<open>x\<close>.
\<close>

theorem C1_try_and_tryAsync_capture:
  "(\<exists>r. Result_try fn args = Inr r)
   \<and> (\<forall>v. fn args = Inr v \<longrightarrow> Result_try fn args = Inr (Result_ok v))
   \<and> (\<forall>x. fn args = Inl x \<longrightarrow> Result_try fn args = Inr (Result_err x))
   \<and> (\<forall>x. Result_tryAsync afn args \<noteq> Rejected x)
   \<and> (\<forall>v. afn args = Inr (Fulfilled v) \<longrightarrow>
          Result_tryAsync afn args = Fulfilled (Result_ok v) \<and> r_value (Result_ok v) = v)
   \<and> (\<forall>x. afn args = Inr (Rejected x) \<longrightarrow>
          Result_tryAsync afn args = Fulfilled (Result_err x) \<and> r_error (Result_err x) = x)
   \<and> (\<forall>x. afn args = Inl x \<longrightarrow>
          Result_tryAsync afn args = Fulfilled (Result_err x) \<and> r_error (Result_err x) = x)"
  by (auto simp: Result_try_def Result_tryAsync_def Result_ok_def Result_err_def
      split: sum.splits promise.splits)

text \<open>
  The library's tests: a function returning \<open>42\<close>, one throwing \<open>Error("boom")\<close>, an
  async function fulfilling with \<open>42\<close>, one rejecting with \<open>"error"\<close>.
\<close>

theorem C1_try_and_tryAsync_capture_witness:
  "Result_try (\<lambda>args. Inr (Num 42)) [] = Inr (Result_ok (Num 42))
   \<and> Result_try (\<lambda>args. Inl (Error ''boom'')) [] = Inr (Result_err (Error ''boom''))
   \<and> Result_tryAsync (\<lambda>args. Inr (Fulfilled (Num 42))) [] = Fulfilled (Result_ok (Num 42))
   \<and> Result_tryAsync (\<lambda>args. Inr (Rejected (Str ''error''))) []
        = Fulfilled (Result_err (Str ''error''))
   \<and> Result_tryAsync (\<lambda>args. Inl (Error ''error'')) []
        = Fulfilled (Result_err (Error ''error''))"
  using C1_try_and_tryAsync_capture
          [of "\<lambda>args. Inr (Num 42)" "[]" "\<lambda>args. Inr (Fulfilled (Num 42))"]
        C1_try_and_tryAsync_capture
          [of "\<lambda>args. Inl (Error ''boom'')" "[]" "\<lambda>args. Inr (Rejected (Str ''error''))"]
        C1_try_and_tryAsync_capture
          [of "\<lambda>args. Inl (Error ''boom'')" "[]" "\<lambda>args. Inl (Error ''error'')"]
  by simp

section \<open>Result: a success value of \<open>undefined\<close>\<close>

text \<open>
  As first stated, \<open>Result.ok(undefined)\<close> would answer every operation as
  \<open>Result.err(e)\<close> does, for every \<open>e\<close>. \<open>isOk()\<close> already tells the two apart.
\<close>

theorem C2_isOk_distinguishes_ok_undefined_from_err:
  "Result_isOk (Result_ok Undefined) \<noteq> Result_isOk (Result_err (Str ''e''))"
  by (simp add: Result_isOk_def Result_ok_def Result_err_def)

text \<open>
  Claim C2, amended. \<open>Result.ok(undefined)\<close> is the same instance state as
  \<open>Result.err(undefined)\<close>: both slots hold \<open>undefined\<close>. Compared with
  \<open>Result.err(e)\<close> for an arbitrary \<open>e\<close>, the operations that read the value slot agree:
  \<open>or\<close> returns the default, \<open>expect\<close> throws the given message, and \<open>unwrap\<close>
  throws on both (on \<open>Result.ok(undefined)\<close> with the error slot printed as
  \<open>undefined\<close>). The operations that read the error slot treat
  \<open>Result.ok(undefined)\<close> as Ok: \<open>isOk()\<close> is true, \<open>isErr()\<close> is false,
  \<open>match\<close> calls the Ok handler with \<open>undefined\<close>, \<open>map\<close> runs the mapper through
  \<open>try\<close>, and \<open>unwrapErr\<close> and \<open>expectErr\<close> throw.
\<close>

theorem C2_ok_undefined_outcomes:
  "Result_ok Undefined = Result_err Undefined
   \<and> Result_or (Result_ok Undefined) d = Result_or (Result_err e) d
   \<and> Result_or (Result_ok Undefined) d = d
   \<and> Result_expect (Result_ok Undefined) m = Result_expect (Result_err e) m
   \<and> Result_expect (Result_ok Undefined) m = Inl (Error m)
   \<and> Result_unwrap (Result_ok Undefined)
       = Inl (Error ''Attempted to unwrap an Err value Result. Error: undefined'')
   \<and> (\<exists>thrown. Result_unwrap (Result_err e) = Inl thrown)
   \<and> Result_isOk (Result_ok Undefined)
   \<and> \<not> Result_isErr (Result_ok Undefined)
   \<and> Result_match (Result_ok Undefined) onOk onErr = onOk [Undefined]
   \<and> Result_map (Result_ok Undefined) mapper = Result_try mapper [Undefined]
   \<and> Result_unwrapErr (Result_ok Undefined)
       = Inl (Error ''Attempted to unwrap error for an Ok value Result.'')
   \<and> Result_expectErr (Result_ok Undefined) m = Inl (Error m)"
proof -
  have same: "Result_ok Undefined = Result_err Undefined"
    by (simp add: Result_ok_def Result_err_def)
  have value_slot:
    "Result_or (Result_ok Undefined) d = Result_or (Result_err e) d
     \<and> Result_or (Result_ok Undefined) d = d
     \<and> Result_expect (Result_ok Undefined) m = Result_expect (Result_err e) m
     \<and> Result_expect (Result_ok Undefined) m = Inl (Error m)"
    by (simp add: Result_ok_def Result_err_def Result_or_def Result_expect_def)
  have unwrap_ok: "Result_unwrap (Result_ok Undefined)
       = Inl (Error ''Attempted to unwrap an Err value Result. Error: undefined'')"
    by (simp add: Result_ok_undefined_unwrap)
  have unwrap_err: "\<exists>thrown. Result_unwrap (Result_err e) = Inl thrown"
    by (simp add: Result_err_unwrap_throws)
  have error_slot:
    "Result_isOk (Result_ok Undefined)
     \<and> \<not> Result_isErr (Result_ok Undefined)
     \<and> Result_match (Result_ok Undefined) onOk onErr = onOk [Undefined]
     \<and> Result_map (Result_ok Undefined) mapper = Result_try mapper [Undefined]
     \<and> Result_unwrapErr (Result_ok Undefined)
         = Inl (Error ''Attempted to unwrap error for an Ok value Result.'')
     \<and> Result_expectErr (Result_ok Undefined) m = Inl (Error m)"
    by (simp add: Result_ok_def Result_isOk_def Result_isErr_def Result_match_def
        Result_map_def Result_unwrapErr_def Result_expectErr_def)
  from same value_slot unwrap_ok unwrap_err error_slot show ?thesis by blast
qed

section \<open>Option: the asynchronous factory\<close>

text \<open>
  Claim C3. \<open>Option.fromAsync\<close> of a computation that rejects with \<open>r\<close> rejects with
  \<open>r\<close> and yields no Option; of a computation that fulfils with \<open>v\<close> it yields the
  Option that \<open>Option.from(v)\<close> returns.
\<close>

theorem C3_fromAsync_propagates_rejection:
  "Option_fromAsync (Rejected r) = Rejected r
   \<and> (\<forall>opt. Option_fromAsync (Rejected r) \<noteq> Fulfilled opt)
   \<and> (\<exists>opt. Option_from v = Inr opt \<and> Option_fromAsync (Fulfilled v) = Fulfilled opt)"
  by (simp add: Option_fromAsync_def Option_from_total)

section \<open>Result: factories and unwrapping\<close>

text \<open>
  Claim C4. For all values \<open>v\<close>, the falsy ones included, \<open>Result.ok(v).unwrap()\<close>
  is \<open>v\<close>, \<open>Result.ok(v).isOk()\<close> is true and \<open>Result.ok(v).isErr()\<close> is false.
  The code at \<open>v = undefined\<close>, which is also what \<open>Result.ok()\<close> builds: \<open>isOk()\<close>
  is true, \<open>isErr()\<close> is false and \<open>match\<close> calls the Ok handler, yet \<open>unwrap()\<close>
  throws, with a message that speaks of an Err value.
\<close>

theorem C4_unwrap_ok_undefined_throws:
  "Result_isOk (Result_ok Undefined)
   \<and> \<not> Result_isErr (Result_ok Undefined)
   \<and> Result_match (Result_ok Undefined) onOk onErr = onOk [Undefined]
   \<and> Result_unwrap (Result_ok Undefined)
       = Inl (Error ''Attempted to unwrap an Err value Result. Error: undefined'')
   \<and> Result_unwrap (Result_ok Undefined) \<noteq> Inr Undefined"
  by (simp add: Result_ok_undefined_unwrap)
     (simp add: Result_ok_def Result_isOk_def Result_isErr_def Result_match_def)

text \<open>
  On every other value, \<open>0\<close>, \<open>""\<close> and \<open>false\<close> included, the three calls do what
  the claim says.
\<close>

lemma Result_ok_unwrap_defined:
  "v \<noteq> Undefined \<Longrightarrow>
     Result_unwrap (Result_ok v) = Inr v
     \<and> Result_isOk (Result_ok v) \<and> \<not> Result_isErr (Result_ok v)"
  by (simp add: Result_unwrap_def Result_ok_def Result_isOk_def Result_isErr_def)

lemma Result_ok_unwrap_falsy:
  "Result_unwrap (Result_ok (Num 0)) = Inr (Num 0)
   \<and> Result_unwrap (Result_ok (Str [])) = Inr (Str [])
   \<and> Result_unwrap (Result_ok (Bool False)) = Inr (Bool False)"
  by (simp add: Result_ok_unwrap_defined)

text \<open>
  Claim C5. For all error values \<open>e\<close>, \<open>Result.err(e).unwrapErr()\<close> is \<open>e\<close>, and
  \<open>Result.err(e).unwrap()\<close> throws an \<open>Error\<close> whose message is
  \<open>Attempted to unwrap an Err value Result. Error: \<close> followed by \<open>e\<close> as a string.
  The code at \<open>e = undefined\<close>, which is also what \<open>Result.err()\<close> builds:
  \<open>isErr()\<close> is false and \<open>unwrapErr()\<close> throws, with a message that speaks of an Ok
  value.
\<close>

theorem C5_unwrapErr_err_undefined_throws:
  "\<not> Result_isErr (Result_err Undefined)
   \<and> Result_unwrapErr (Result_err Undefined)
       = Inl (Error ''Attempted to unwrap error for an Ok value Result.'')
   \<and> Result_unwrapErr (Result_err Undefined) \<noteq> Inr Undefined"
  by (simp add: Result_unwrapErr_def Result_isErr_def Result_err_def)

text \<open>
  On every other error value \<open>unwrapErr()\<close> returns it, and \<open>unwrap()\<close> throws the
  \<open>Error\<close> with the stated message whenever the value converts to a string.
\<close>

lemma Result_err_unwrapErr_defined:
  "e \<noteq> Undefined \<Longrightarrow> Result_unwrapErr (Result_err e) = Inr e"
  by (simp add: Result_unwrapErr_def Result_err_def)

lemma Result_err_unwrap_message:
  "ToString e = Inr s \<Longrightarrow>
     Result_unwrap (Result_err e)
       = Inl (Error (''Attempted to unwrap an Err value Result. Error: '' @ s))"
  by (simp add: Result_unwrap_def Result_err_def string_concat_def)

lemma Result_err_unwrap_string:
  "Result_unwrap (Result_err (Str ''error message''))
     = Inl (Error ''Attempted to unwrap an Err value Result. Error: error message'')"
  by (simp add: Result_err_unwrap_message)

lemma Result_err_unwrap_number:
  "Result_unwrap (Result_err (Num 42))
     = Inl (Error ''Attempted to unwrap an Err value Result. Error: 42'')"
  by code_simp

text \<open>
  A symbol does not convert, so there \<open>unwrap()\<close> throws the \<open>TypeError\<close> of the
  conversion.
\<close>

lemma Result_err_unwrap_symbol:
  "Result_unwrap (Result_err (Symbol i))
     = Inl (TypeError ''Cannot convert a Symbol value to a string'')"
  by (simp add: Result_unwrap_def Result_err_def string_concat_def)

section \<open>Option: the present-value factory\<close>

text \<open>
  Claim C6. \<open>Option.some(undefined)\<close> and \<open>Option.some(null)\<close> each throw an
  \<open>Error\<close> with a fixed message of its own; for every other value \<open>v\<close>,
  \<open>Option.some(v)\<close> returns a present Option whose \<open>unwrap()\<close> returns \<open>v\<close>.
\<close>

theorem C6_some_validates:
  "Option_some Undefined
     = Inl (Error ''Cannot create a Some Option with an undefined value.'')
   \<and> Option_some Null = Inl (Error ''Cannot create a Some Option with a null value.'')
   \<and> Option_some Undefined \<noteq> Option_some Null
   \<and> (v \<noteq> Undefined \<and> v \<noteq> Null \<longrightarrow>
        (\<exists>opt. Option_some v = Inr opt \<and> Option_isSome opt \<and> Option_unwrap opt = Inr v))"
  by (simp add: Option_some_def Option_isSome_def Option_unwrap_def)

theorem C6_some_validates_witness:
  "Num 42 \<noteq> Undefined \<and> Num 42 \<noteq> Null
   \<and> (\<exists>opt. Option_some (Num 42) = Inr opt \<and> Option_isSome opt
          \<and> Option_unwrap opt = Inr (Num 42))"
  using C6_some_validates [of "Num 42"] by simp

section \<open>Result: map\<close>



section \<open>Option: map\<close>

text \<open>
  Claim C8. On an absent Option, \<open>map(mapper)\<close> returns an absent Option whatever the
  mapper is, also for a mapper that would throw on every call: the mapper is not
  consulted. On a present Option holding \<open>v\<close>, \<open>map(mapper)\<close> is
  \<open>Option.from(mapper(v))\<close>, so a mapper returning \<open>undefined\<close> or \<open>null\<close> gives an
  absent Option, and no mapper makes \<open>map\<close> return a present Option that holds
  \<open>undefined\<close> or \<open>null\<close>.
\<close>

theorem C8_map:
  "(Option_isNone opt \<longrightarrow> (\<forall>mapper. Option_map opt mapper = Inr Option_none))
   \<and> (Option_isSome opt \<longrightarrow>
        Option_map opt mapper
          = (case mapper [o_value opt] of Inl x \<Rightarrow> Inl x | Inr w \<Rightarrow> Option_from w))
   \<and> (Option_isSome opt
        \<and> (mapper [o_value opt] = Inr Undefined \<or> mapper [o_value opt] = Inr Null)
        \<longrightarrow> Option_map opt mapper = Inr Option_none \<and> Option_isNone Option_none)
   \<and> (\<forall>res. Option_map opt mapper = Inr res \<longrightarrow>
          \<not> (Option_isSome res \<and> (o_value res = Undefined \<or> o_value res = Null)))"
proof -
  have absent: "Option_isNone opt \<longrightarrow> (\<forall>mapper. Option_map opt mapper = Inr Option_none)"
    by (simp add: Option_isNone_def Option_map_def)
  have present: "Option_isSome opt \<longrightarrow>
        Option_map opt mapper
          = (case mapper [o_value opt] of Inl x \<Rightarrow> Inl x | Inr w \<Rightarrow> Option_from w)"
    by (simp add: Option_isSome_def Option_map_def)
  have collapse: "Option_isSome opt
        \<and> (mapper [o_value opt] = Inr Undefined \<or> mapper [o_value opt] = Inr Null)
        \<longrightarrow> Option_map opt mapper = Inr Option_none \<and> Option_isNone Option_none"
    using present
    by (auto simp: Option_from_def Option_isNone_def Option_none_def)
  have never: "\<forall>res. Option_map opt mapper = Inr res \<longrightarrow>
          \<not> (Option_isSome res \<and> (o_value res = Undefined \<or> o_value res = Null))"
    by (auto simp: Option_isSome_def dest: Option_map_never_null)
  from absent present collapse never show ?thesis by blast
qed

theorem C8_map_witness:
  "Option_isNone Option_none
   \<and> Option_map Option_none (\<lambda>args. Inl (Error ''called'')) = Inr Option_none
   \<and> Option_isSome \<lparr>o_value = Num 5\<rparr>
   \<and> Option_map \<lparr>o_value = Num 5\<rparr> (\<lambda>args. Inr Null) = Inr Option_none
   \<and> Option_map \<lparr>o_value = Num 5\<rparr> (\<lambda>args. Inr Undefined) = Inr Option_none
   \<and> Option_map \<lparr>o_value = Num 5\<rparr> (\<lambda>args. Inr (Str ''x'')) = Inr \<lparr>o_value = Str ''x''\<rparr>
   \<and> Option_isSome \<lparr>o_value = Str ''x''\<rparr>
   \<and> o_value \<lparr>o_value = Str ''x''\<rparr> \<noteq> Null"
  using C8_map [of Option_none "\<lambda>args. Inl (Error ''called'')"]
        C8_map [of "\<lparr>o_value = Num 5\<rparr>" "\<lambda>args. Inr Null"]
        C8_map [of "\<lparr>o_value = Num 5\<rparr>" "\<lambda>args. Inr Undefined"]
        C8_map [of "\<lparr>o_value = Num 5\<rparr>" "\<lambda>args. Inr (Str ''x'')"]
  by (simp add: Option_isNone_def Option_isSome_def Option_none_def Option_from_total)

section \<open>Result: the omitted-error instance\<close>

text \<open>
  Claim C9. \<open>Result.err(undefined)\<close>, the error factory with its payload omitted,
  is an instance on which \<open>isErr()\<close> is false and \<open>isOk()\<close> is true, and on which
  both \<open>unwrap()\<close> and \<open>unwrapErr()\<close> throw.
\<close>

theorem C9_err_undefined_neither_err_nor_usable_ok:
  "\<not> Result_isErr (Result_err Undefined)
   \<and> Result_isOk (Result_err Undefined)
   \<and> Result_unwrap (Result_err Undefined)
       = Inl (Error ''Attempted to unwrap an Err value Result. Error: undefined'')
   \<and> Result_unwrapErr (Result_err Undefined)
       = Inl (Error ''Attempted to unwrap error for an Ok value Result.'')"
  by (simp add: Result_err_undefined_unwrap)
     (simp add: Result_isErr_def Result_isOk_def Result_unwrapErr_def Result_err_def)

section \<open>Option: predicates and unwrapping agree\<close>

text \<open>
  Claim C10. An Option obtained through \<open>some\<close>, \<open>none\<close>, \<open>from\<close>, \<open>fromAsync\<close> and
  \<open>map\<close> never holds \<open>null\<close>; on it \<open>isSome()\<close> is true exactly when \<open>unwrap()\<close>
  returns, and \<open>isNone()\<close> is true exactly when \<open>unwrapNone()\<close> returns. Result has an
  instance, \<open>Result.ok(undefined)\<close>, on which \<open>isOk()\<close> is true and \<open>unwrap()\<close> throws.
\<close>

theorem C10_option_predicates_agree_with_unwrap:
  "(\<forall>opt. Option_reachable opt \<longrightarrow>
       o_value opt \<noteq> Null
       \<and> (Option_isSome opt \<longleftrightarrow> (\<exists>v. Option_unwrap opt = Inr v))
       \<and> (Option_isNone opt \<longleftrightarrow> (\<exists>u. Option_unwrapNone opt = Inr u)))
   \<and> (Result_isOk (Result_ok Undefined)
        \<and> (\<exists>x. Result_unwrap (Result_ok Undefined) = Inl x))"
proof -
  have preds: "(Option_isSome opt \<longleftrightarrow> (\<exists>v. Option_unwrap opt = Inr v))
       \<and> (Option_isNone opt \<longleftrightarrow> (\<exists>u. Option_unwrapNone opt = Inr u))" for opt
    by (simp add: Option_isSome_def Option_unwrap_def Option_isNone_def
        Option_unwrapNone_def)
  have res: "Result_isOk (Result_ok Undefined)
        \<and> (\<exists>x. Result_unwrap (Result_ok Undefined) = Inl x)"
    by (simp add: Result_ok_undefined_unwrap) (simp add: Result_isOk_def Result_ok_def)
  from preds res Option_reachable_never_null show ?thesis by blast
qed

text \<open>
  \<open>Option.some(42)\<close>, and \<open>Option.some(42).map(_ => null)\<close>, which is absent.
\<close>

theorem C10_option_predicates_agree_with_unwrap_witness:
  "Option_reachable \<lparr>o_value = Num 42\<rparr>
   \<and> o_value \<lparr>o_value = Num 42\<rparr> \<noteq> Null
   \<and> Option_isSome \<lparr>o_value = Num 42\<rparr>
   \<and> Option_unwrap \<lparr>o_value = Num 42\<rparr> = Inr (Num 42)
   \<and> \<not> Option_isNone \<lparr>o_value = Num 42\<rparr>
   \<and> Option_unwrapNone \<lparr>o_value = Num 42\<rparr>
        = Inl (Error ''Attempted to unwrap a Some value Option.'')
   \<and> Option_reachable \<lparr>o_value = Undefined\<rparr>
   \<and> Option_isNone \<lparr>o_value = Undefined\<rparr>
   \<and> Option_unwrapNone \<lparr>o_value = Undefined\<rparr> = Inr Undefined
   \<and> \<not> Option_isSome \<lparr>o_value = Undefined\<rparr>
   \<and> Option_unwrap \<lparr>o_value = Undefined\<rparr>
        = Inl (Error ''Attempted to unwrap a None value Option.'')"
proof -
  have "Option_some (Num 42) = Inr \<lparr>o_value = Num 42\<rparr>"
    by (simp add: Option_some_def)
  then have present: "Option_reachable \<lparr>o_value = Num 42\<rparr>"
    by (rule via_some)
  have "Option_map \<lparr>o_value = Num 42\<rparr> (\<lambda>args. Inr Null) = Inr \<lparr>o_value = Undefined\<rparr>"
    by (simp add: Option_map_def Option_from_def Option_none_def)
  with present have absent: "Option_reachable \<lparr>o_value = Undefined\<rparr>"
    by (rule via_map)
  from present absent
    C10_option_predicates_agree_with_unwrap [THEN conjunct1, rule_format, OF present]
    C10_option_predicates_agree_with_unwrap [THEN conjunct1, rule_format, OF absent]
  show ?thesis
    by (simp add: Option_isSome_def Option_isNone_def Option_unwrap_def
        Option_unwrapNone_def)
qed

end
